theory Spec2Isabelle
  imports Main
begin

section \<open>The authenticated API client of \<^verbatim>\<open>frontend/lib/api.js\<close>\<close>

text \<open>
  The module is JavaScript: the values it reads from parsed response bodies and from
  \<^verbatim>\<open>localStorage\<close> are dynamically typed, and its branches test truthiness. The
  embedding keeps that: values are \<open>jsval\<close>, a property read on \<^verbatim>\<open>null\<close> or
  \<^verbatim>\<open>undefined\<close> raises, \<^verbatim>\<open>a || b\<close> and \<^verbatim>\<open>if (x)\<close> go through \<open>truthy\<close>.
  A rejected promise (a throw inside an \<^verbatim>\<open>async\<close> function) is the \<open>Inl\<close> branch of a
  sum; the browser state the module touches is the record \<open>world\<close>, passed through.
\<close>

subsection \<open>JavaScript values\<close>

text \<open>
  Numbers are the integers (what the backend sends as \<^verbatim>\<open>retry_after\<close>); the module never
  computes with a number, it only passes it on, tests it for truthiness or turns it into a
  string. An object is its list of own properties, each key once.
\<close>

datatype jsval =
    Undefined
  | Null
  | Bool bool
  | Num int
  | Str string
  | Arr "jsval list"
  | Obj "(string \<times> jsval) list"

datatype js_error = TypeError | SyntaxError | NetworkError

text \<open>\<^verbatim>\<open>if (v)\<close>, \<^verbatim>\<open>!v\<close> and \<^verbatim>\<open>v || w\<close>: the falsy values are \<^verbatim>\<open>undefined\<close>, \<^verbatim>\<open>null\<close>,
  \<^verbatim>\<open>false\<close>, \<^verbatim>\<open>0\<close> and the empty string.\<close>

fun truthy :: "jsval \<Rightarrow> bool" where
  "truthy Undefined = False"
| "truthy Null = False"
| "truthy (Bool b) = b"
| "truthy (Num n) = (n \<noteq> 0)"
| "truthy (Str s) = (s \<noteq> [])"
| "truthy (Arr xs) = True"
| "truthy (Obj fs) = True"

definition js_or :: "jsval \<Rightarrow> jsval \<Rightarrow> jsval" where
  "js_or a b = (if truthy a then a else b)"

fun nullish :: "jsval \<Rightarrow> bool" where
  "nullish Undefined = True"
| "nullish Null = True"
| "nullish v = False"

text \<open>\<^verbatim>\<open>v.k\<close> for a key \<open>k\<close> that no prototype defines (all keys the module reads are such:
  \<^verbatim>\<open>detail\<close>, \<^verbatim>\<open>retry_after\<close>, \<^verbatim>\<open>retry_after_human\<close>, \<^verbatim>\<open>errors\<close>, \<^verbatim>\<open>access_token\<close>,
  \<^verbatim>\<open>refresh_token\<close>, \<^verbatim>\<open>requires_2fa\<close>): an own property of an object, \<^verbatim>\<open>undefined\<close> on
  any other value.\<close>

fun field :: "jsval \<Rightarrow> string \<Rightarrow> jsval" where
  "field (Obj fs) k = (case map_of fs k of None \<Rightarrow> Undefined | Some v \<Rightarrow> v)"
| "field v k = Undefined"

text \<open>The read itself raises a TypeError on \<^verbatim>\<open>null\<close> and \<^verbatim>\<open>undefined\<close>.\<close>

definition read_prop :: "jsval \<Rightarrow> string \<Rightarrow> js_error + jsval" where
  "read_prop v k = (if nullish v then Inl TypeError else Inr (field v k))"

text \<open>Sequencing of steps that may throw: the first throw is the result.\<close>

definition andThen :: "js_error + 'a \<Rightarrow> ('a \<Rightarrow> js_error + 'b) \<Rightarrow> js_error + 'b" where
  "andThen m f = (case m of Inl e \<Rightarrow> Inl e | Inr x \<Rightarrow> f x)"

subsection \<open>String conversion\<close>

text \<open>\<^verbatim>\<open>String(v)\<close>, which \<^verbatim>\<open>localStorage.setItem\<close> and a template literal apply to their
  argument. Integers print in decimal (as JavaScript does below \<open>10^21\<close>).\<close>

fun digits :: "nat \<Rightarrow> string" where
  "digits n = (if n < 10 then [char_of (48 + n)] else digits (n div 10) @ [char_of (48 + n mod 10)])"

definition show_int :: "int \<Rightarrow> string" where
  "show_int i = (if i < 0 then CHR ''-'' # digits (nat (- i)) else digits (nat i))"

fun join :: "string list \<Rightarrow> string" where
  "join [] = []"
| "join [s] = s"
| "join (s # t # ss) = s @ CHR '','' # join (t # ss)"

fun ToString :: "jsval \<Rightarrow> string" where
  "ToString Undefined = ''undefined''"
| "ToString Null = ''null''"
| "ToString (Bool b) = (if b then ''true'' else ''false'')"
| "ToString (Num n) = show_int n"
| "ToString (Str s) = s"
| "ToString (Arr xs) = join (map (\<lambda>x. if nullish x then [] else ToString x) xs)"
| "ToString (Obj fs) = ''[object Object]''"

subsection \<open>Responses\<close>

text \<open>
  A \<^verbatim>\<open>Response\<close> as the module sees it: the status, the body as \<^verbatim>\<open>JSON.parse\<close> would read
  it (\<open>None\<close> when the text is not JSON), and whether the body stream has been read.
  \<^verbatim>\<open>response.json()\<close> rejects with a TypeError on a body already read and with a
  SyntaxError on text that is not JSON; the caller holds the response with its body marked
  read afterwards (\<open>consumed\<close>).
\<close>

record response =
  status :: nat
  json_body :: "jsval option"
  bodyUsed :: bool

definition ok :: "response \<Rightarrow> bool" where
  "ok r = (200 \<le> status r \<and> status r \<le> 299)"

definition json :: "response \<Rightarrow> js_error + jsval" where
  "json r = (if bodyUsed r then Inl TypeError
             else case json_body r of None \<Rightarrow> Inl SyntaxError | Some v \<Rightarrow> Inr v)"

definition consumed :: "response \<Rightarrow> response" where
  "consumed r = r\<lparr>bodyUsed := True\<rparr>"

subsection \<open>\<^verbatim>\<open>handleApiError\<close>\<close>

text \<open>The three object literals the function returns, one constructor each.
  \<^verbatim>\<open>isRateLimited\<close> and \<^verbatim>\<open>isLocked\<close> are what a caller's \<^verbatim>\<open>error.isRateLimited\<close> and
  \<^verbatim>\<open>error.isLocked\<close> tests see.\<close>

datatype api_error =
    RateLimitedError (message: jsval) (retryAfter: jsval) (retryAfterHuman: jsval)
  | LockedError (message: jsval)
  | OtherError (message: jsval) (errors: jsval)

fun isRateLimited :: "api_error \<Rightarrow> bool" where
  "isRateLimited (RateLimitedError m ra rah) = True"
| "isRateLimited (LockedError m) = False"
| "isRateLimited (OtherError m es) = False"

fun isLocked :: "api_error \<Rightarrow> bool" where
  "isLocked (RateLimitedError m ra rah) = False"
| "isLocked (LockedError m) = True"
| "isLocked (OtherError m es) = False"

definition fallback_message :: string where
  "fallback_message = ''An unexpected error occurred.''"

definition handleApiError :: "response \<Rightarrow> js_error + api_error" where
  "handleApiError r =
    (if status r = 429 then
       andThen (json r) (\<lambda>data.
       andThen (read_prop data ''detail'') (\<lambda>detail.
       andThen (read_prop data ''retry_after'') (\<lambda>retry_after.
       andThen (read_prop data ''retry_after_human'') (\<lambda>retry_after_human.
       Inr (RateLimitedError detail retry_after retry_after_human)))))
     else if status r = 423 then
       andThen (json r) (\<lambda>data.
       andThen (read_prop data ''detail'') (\<lambda>detail.
       Inr (LockedError detail)))
     else
       andThen (json r) (\<lambda>data.
       andThen (read_prop data ''detail'') (\<lambda>detail.
       andThen (read_prop data ''errors'') (\<lambda>errs.
       Inr (OtherError (js_or detail (Str fallback_message)) (js_or errs (Obj [])))))))"

subsection \<open>The specification's classification\<close>

text \<open>
  The specification names four kinds of classified error. \<open>classified_kind\<close> reads them
  off the object the code returns, in the specification's words: rate-limited, locked,
  validation when the result carries a map from field names to lists of messages, generic
  otherwise. \<open>retryAfterSeconds\<close> is the specification's name for \<^verbatim>\<open>retryAfter\<close>.
\<close>

datatype kind = RateLimited | Locked | Validation | Generic

fun is_message_list :: "jsval \<Rightarrow> bool" where
  "is_message_list (Arr ms) = list_all (\<lambda>m. case m of Str s \<Rightarrow> True | _ \<Rightarrow> False) ms"
| "is_message_list v = False"

fun field_errors_shaped :: "jsval \<Rightarrow> bool" where
  "field_errors_shaped (Obj fs) = (fs \<noteq> [] \<and> list_all (\<lambda>(k, v). is_message_list v) fs)"
| "field_errors_shaped v = False"

fun classified_kind :: "api_error \<Rightarrow> kind" where
  "classified_kind (RateLimitedError m ra rah) = RateLimited"
| "classified_kind (LockedError m) = Locked"
| "classified_kind (OtherError m es) = (if field_errors_shaped es then Validation else Generic)"

definition retryAfterSeconds :: "api_error \<Rightarrow> jsval" where
  "retryAfterSeconds e = retryAfter e"

subsection \<open>The browser: storage, location, toasts, console, network\<close>

text \<open>
  The second argument of \<^verbatim>\<open>fetch\<close>: the keys the module sets (\<open>request_method\<close> is
  the key \<^verbatim>\<open>method\<close>). \<open>Stringified v\<close> is the
  string \<^verbatim>\<open>JSON.stringify(v)\<close>; headers are a plain object, a header the object maps to
  \<^verbatim>\<open>undefined\<close> is \<open>Some Undefined\<close>.
\<close>

datatype payload = Stringified jsval | FormData "(string \<times> string) list"

record init =
  request_method :: "string option"
  headers :: "(string \<rightharpoonup> jsval) option"
  body :: "payload option"

record toast =
  title :: string
  description :: jsval
  variant :: string

text \<open>
  \<open>localStorage\<close> holds strings under string keys; \<open>location_href\<close> lists the assignments
  to \<^verbatim>\<open>window.location.href\<close> in order, \<open>toasts\<close> the calls of \<^verbatim>\<open>toast\<close>, \<open>console\<close>
  the messages of \<^verbatim>\<open>console.warn\<close> and \<^verbatim>\<open>console.error\<close>, \<open>sent\<close> the calls of
  \<^verbatim>\<open>fetch\<close>.
\<close>

record world =
  localStorage :: "string \<rightharpoonup> string"
  location_href :: "string list"
  toasts :: "toast list"
  console :: "string list"
  sent :: "(string \<times> init) list"

text \<open>The network answers a request, given the requests sent before it, with a response
  or with a rejection (no connectivity).\<close>

type_synonym network = "(string \<times> init) list \<Rightarrow> string \<Rightarrow> init \<Rightarrow> js_error + response"

definition fetch :: "network \<Rightarrow> string \<Rightarrow> init \<Rightarrow> world \<Rightarrow> (js_error + response) \<times> world" where
  "fetch net url i w = (net (sent w) url i, w\<lparr>sent := sent w @ [(url, i)]\<rparr>)"

definition getItem :: "world \<Rightarrow> string \<Rightarrow> jsval" where
  "getItem w k = (case localStorage w k of None \<Rightarrow> Null | Some s \<Rightarrow> Str s)"

definition setItem :: "string \<Rightarrow> jsval \<Rightarrow> world \<Rightarrow> world" where
  "setItem k v w = w\<lparr>localStorage := (localStorage w)(k \<mapsto> ToString v)\<rparr>"

definition removeItem :: "string \<Rightarrow> world \<Rightarrow> world" where
  "removeItem k w = w\<lparr>localStorage := (localStorage w)(k := None)\<rparr>"

definition redirect :: "string \<Rightarrow> world \<Rightarrow> world" where
  "redirect target w = w\<lparr>location_href := location_href w @ [target]\<rparr>"

definition log :: "string \<Rightarrow> world \<Rightarrow> world" where
  "log msg w = w\<lparr>console := console w @ [msg]\<rparr>"

text \<open>Modelled from the spec: \<^verbatim>\<open>toast\<close> of \<^verbatim>\<open>hooks/use-toast\<close> is not among the sources;
  it shows a notification to the user, here recorded in \<open>toasts\<close>, and returns.\<close>

definition show_toast :: "toast \<Rightarrow> world \<Rightarrow> world" where
  "show_toast t w = w\<lparr>toasts := toasts w @ [t]\<rparr>"

subsection \<open>\<^verbatim>\<open>refreshToken\<close>\<close>

definition refresh_url :: string where
  "refresh_url = ''http://127.0.0.1:8000/api/auth/refresh/''"

definition refresh_init :: "jsval \<Rightarrow> init" where
  "refresh_init refresh_token =
     \<lparr>request_method = Some ''POST'',
      headers = Some [''Content-Type'' \<mapsto> Str ''application/json''],
      body = Some (Stringified (Obj [(''refresh_token'', refresh_token)]))\<rparr>"

text \<open>The \<^verbatim>\<open>catch\<close> block.\<close>

definition refresh_catch :: "world \<Rightarrow> jsval \<times> world" where
  "refresh_catch w =
     (Null,
      redirect ''/login''
        (show_toast \<lparr>title = ''Network Error'',
                     description = Str ''Could not refresh session. Please check your connection.'',
                     variant = ''destructive''\<rparr>
          (log ''Network error during token refresh:'' w)))"

definition refreshToken :: "network \<Rightarrow> world \<Rightarrow> jsval \<times> world" where
  "refreshToken net w =
    (let refresh_token = getItem w ''refresh_token'' in
     if \<not> truthy refresh_token then
       (Null, redirect ''/login'' (log ''No refresh token found. Redirecting to login.'' w))
     else
       (case fetch net refresh_url (refresh_init refresh_token) w of
          (Inl e, w1) \<Rightarrow> refresh_catch w1
        | (Inr response, w1) \<Rightarrow>
            if ok response then
              (case json response of
                 Inl e \<Rightarrow> refresh_catch w1
               | Inr data \<Rightarrow>
                  (case read_prop data ''access_token'' of
                     Inl e \<Rightarrow> refresh_catch w1
                   | Inr access_token \<Rightarrow>
                      (let w2 = setItem ''access_token'' access_token w1 in
                       case read_prop data ''refresh_token'' of
                         Inl e \<Rightarrow> refresh_catch w2
                       | Inr new_refresh \<Rightarrow>
                          (let w3 = setItem ''refresh_token'' new_refresh w2 in
                           case read_prop data ''access_token'' of
                             Inl e \<Rightarrow> refresh_catch w3
                           | Inr result \<Rightarrow> (result, w3)))))
            else
              (case handleApiError response of
                 Inl e \<Rightarrow> refresh_catch w1
               | Inr error \<Rightarrow>
                  (Null,
                   redirect ''/login''
                     (show_toast \<lparr>title = ''Session Expired'',
                                  description = js_or (message error) (Str ''Please log in again.''),
                                  variant = ''destructive''\<rparr>
                       (log ''Token refresh failed:'' w1))))))"

subsection \<open>\<^verbatim>\<open>apiRequest\<close>\<close>

fun isFormData :: "payload option \<Rightarrow> bool" where
  "isFormData (Some (FormData entries)) = True"
| "isFormData b = False"

text \<open>The object \<^verbatim>\<open>makeRequest\<close> hands to \<^verbatim>\<open>fetch\<close>: the caller's options, with
  \<^verbatim>\<open>headers\<close> replaced by the two headers of the Gateway followed by the spread of the
  caller's headers (a later key replaces an earlier one).\<close>

definition request_init :: "init \<Rightarrow> jsval \<Rightarrow> init" where
  "request_init options currentAccessToken =
     options\<lparr>headers := Some
       ([''Authorization'' \<mapsto> Str (''Bearer '' @ ToString currentAccessToken),
         ''Content-Type'' \<mapsto> (if isFormData (body options) then Undefined else Str ''application/json'')]
        ++ (case headers options of None \<Rightarrow> Map.empty | Some h \<Rightarrow> h))\<rparr>"

definition makeRequest ::
  "network \<Rightarrow> string \<Rightarrow> init \<Rightarrow> jsval \<Rightarrow> world \<Rightarrow> (js_error + response) \<times> world" where
  "makeRequest net url options currentAccessToken w =
     fetch net url (request_init options currentAccessToken) w"

definition auth_failed_response :: response where
  "auth_failed_response =
     \<lparr>status = 401,
      json_body = Some (Obj [(''detail'', Str ''Authentication failed, please log in.'')]),
      bodyUsed = False\<rparr>"

definition apiRequest ::
  "network \<Rightarrow> string \<Rightarrow> init \<Rightarrow> world \<Rightarrow> (js_error + response) \<times> world" where
  "apiRequest net url options w =
    (let token = getItem w ''access_token'' in
     case makeRequest net url options token w of
       (Inl e, w1) \<Rightarrow> (Inl e, w1)
     | (Inr response, w1) \<Rightarrow>
         if status response = 401 then
           (case refreshToken net w1 of
              (newToken, w2) \<Rightarrow>
                if truthy newToken then makeRequest net url options newToken w2
                else (Inr auth_failed_response, w2))
         else (Inr response, w1))"

subsection \<open>\<^verbatim>\<open>login\<close> and \<^verbatim>\<open>logout\<close>\<close>

record credentials =
  email :: jsval
  password :: jsval
  twoFactorToken :: jsval
  backupCode :: jsval

datatype login_result = Success jsval | Requires2FA | Failure api_error

definition login_url :: string where
  "login_url = ''http://127.0.0.1:8000/api/auth/login/''"

definition login_init :: "credentials \<Rightarrow> init" where
  "login_init c =
     \<lparr>request_method = Some ''POST'',
      headers = Some [''Content-Type'' \<mapsto> Str ''application/json''],
      body = Some (Stringified (Obj [(''email'', email c), (''password'', password c),
                                     (''two_factor_token'', twoFactorToken c),
                                     (''backup_code'', backupCode c)]))\<rparr>"

definition login :: "network \<Rightarrow> credentials \<Rightarrow> world \<Rightarrow> (js_error + login_result) \<times> world" where
  "login net c w =
    (case fetch net login_url (login_init c) w of
       (Inl e, w1) \<Rightarrow> (Inl e, w1)
     | (Inr response, w1) \<Rightarrow>
         if ok response then
           (case json response of
              Inl e \<Rightarrow> (Inl e, w1)
            | Inr data \<Rightarrow>
               (case read_prop data ''access_token'' of
                  Inl e \<Rightarrow> (Inl e, w1)
                | Inr access_token \<Rightarrow>
                   (let w2 = setItem ''access_token'' access_token w1 in
                    case read_prop data ''refresh_token'' of
                      Inl e \<Rightarrow> (Inl e, w2)
                    | Inr refresh_token \<Rightarrow>
                       (Inr (Success data), setItem ''refresh_token'' refresh_token w2))))
         else if status response = 400 then
           (case json response of
              Inl e \<Rightarrow> (Inl e, w1)
            | Inr error \<Rightarrow>
               (case read_prop error ''requires_2fa'' of
                  Inl e \<Rightarrow> (Inl e, w1)
                | Inr requires_2fa \<Rightarrow>
                   if truthy requires_2fa then (Inr Requires2FA, w1)
                   else (case handleApiError (consumed response) of
                           Inl e \<Rightarrow> (Inl e, w1)
                         | Inr err \<Rightarrow> (Inr (Failure err), w1))))
         else
           (case handleApiError response of
              Inl e \<Rightarrow> (Inl e, w1)
            | Inr err \<Rightarrow> (Inr (Failure err), w1)))"

definition logout_url :: string where
  "logout_url = ''http://127.0.0.1:8000/api/auth/logout/''"

definition logout_init :: "jsval \<Rightarrow> init" where
  "logout_init refresh_token =
     \<lparr>request_method = Some ''POST'',
      headers = None,
      body = Some (Stringified (Obj [(''refresh_token'', refresh_token)]))\<rparr>"

definition logout :: "network \<Rightarrow> world \<Rightarrow> world" where
  "logout net w =
    (let refresh_token = getItem w ''refresh_token'';
         w1 = (if truthy refresh_token then
                 (case apiRequest net logout_url (logout_init refresh_token) w of
                    (Inl e, w') \<Rightarrow> log ''Logout API call failed:'' w'
                  | (Inr response, w') \<Rightarrow> w')
               else w)
     in redirect ''/'' (removeItem ''refresh_token'' (removeItem ''access_token'' w1)))"

subsection \<open>What a caller's headers hold, what a failed refresh call is\<close>

text \<open>\<^verbatim>\<open>options.headers?.[k]\<close>: the header a caller supplied under the key \<open>k\<close>, if any.\<close>

definition caller_header :: "init \<Rightarrow> string \<Rightarrow> jsval option" where
  "caller_header options k = (case headers options of None \<Rightarrow> None | Some h \<Rightarrow> h k)"

text \<open>The header the request object holds under \<open>k\<close>.\<close>

definition header_of :: "init \<Rightarrow> string \<Rightarrow> jsval option" where
  "header_of i k = (case headers i of None \<Rightarrow> None | Some h \<Rightarrow> h k)"

text \<open>The outcome of the call to the refresh endpoint counts as failed when the call was
  rejected or the response is not 2xx.\<close>

fun call_failed :: "js_error + response \<Rightarrow> bool" where
  "call_failed (Inl e) = True"
| "call_failed (Inr r) = (\<not> ok r)"

subsection \<open>Sample browsers and backends\<close>

text \<open>A browser holding a token pair, and nothing else.\<close>

definition signed_in :: world where
  "signed_in =
     \<lparr>localStorage = [''access_token'' \<mapsto> ''old-access'', ''refresh_token'' \<mapsto> ''old-refresh''],
      location_href = [], toasts = [], console = [], sent = []\<rparr>"

definition signed_out :: world where
  "signed_out = \<lparr>localStorage = Map.empty, location_href = [], toasts = [], console = [], sent = []\<rparr>"

definition json_response :: "nat \<Rightarrow> jsval \<Rightarrow> response" where
  "json_response code v = \<lparr>status = code, json_body = Some v, bodyUsed = False\<rparr>"

text \<open>A backend on which every token has expired: each call is answered 401.\<close>

definition expired_backend :: network where
  "expired_backend hist url i =
     Inr (json_response 401 (Obj [(''detail'', Str ''Token is invalid or expired.'')]))"

text \<open>No connectivity.\<close>

definition offline :: network where
  "offline hist url i = Inl NetworkError"

text \<open>A backend that rotates the pair at the refresh endpoint, answers 401 to a call that
  does not bear the new access token and 200 to one that does.\<close>

definition rotating_backend :: network where
  "rotating_backend hist url i =
     (if url = refresh_url then
        Inr (json_response 200 (Obj [(''access_token'', Str ''new-access''),
                                     (''refresh_token'', Str ''new-refresh'')]))
      else if header_of i ''Authorization'' = Some (Str ''Bearer new-access'') then
        Inr (json_response 200 (Obj [(''id'', Num 7)]))
      else
        Inr (json_response 401 (Obj [(''detail'', Str ''Token is invalid or expired.'')])))"

text \<open>A login endpoint that asks for the second factor.\<close>

definition two_factor_backend :: network where
  "two_factor_backend hist url i =
     Inr (json_response 400 (Obj [(''detail'', Str ''Two-factor token required.''),
                                  (''requires_2fa'', Bool True)]))"

definition sample_credentials :: credentials where
  "sample_credentials =
     \<lparr>email = Str ''nurse@example.com'', password = Str ''secret'',
      twoFactorToken = Undefined, backupCode = Undefined\<rparr>"

definition profile_url :: string where
  "profile_url = ''http://127.0.0.1:8000/api/users/me/''"

definition no_options :: init where
  "no_options = \<lparr>request_method = None, headers = None, body = None\<rparr>"

text \<open>A caller that brings its own \<^verbatim>\<open>Authorization\<close> header.\<close>

definition basic_auth_options :: init where
  "basic_auth_options =
     \<lparr>request_method = None, headers = Some [''Authorization'' \<mapsto> Str ''Basic dXNlcjpwdw==''], body = None\<rparr>"

section \<open>The error classifier\<close>

lemma andThen_Inr: "andThen (Inr x) f = f x"
  by (simp add: andThen_def)

lemma andThen_Inl: "andThen (Inl e) f = Inl e"
  by (simp add: andThen_def)

lemma read_prop_ok: "\<not> nullish v \<Longrightarrow> read_prop v k = Inr (field v k)"
  by (simp add: read_prop_def)

lemma read_prop_nullish: "nullish v \<Longrightarrow> read_prop v k = Inl TypeError"
  by (simp add: read_prop_def)

text \<open>On a body that parses to anything but \<^verbatim>\<open>null\<close>, every property read succeeds and
  the three branches return their object literal.\<close>

lemma handleApiError_object:
  assumes "json r = Inr data" "\<not> nullish data"
  shows "handleApiError r =
    (if status r = 429 then
       Inr (RateLimitedError (field data ''detail'') (field data ''retry_after'')
              (field data ''retry_after_human''))
     else if status r = 423 then Inr (LockedError (field data ''detail''))
     else Inr (OtherError (js_or (field data ''detail'') (Str fallback_message))
                          (js_or (field data ''errors'') (Obj []))))"
  using assms by (simp add: handleApiError_def andThen_Inr read_prop_ok)

text \<open>None of the three branches catches: a rejection of \<^verbatim>\<open>response.json()\<close> is the
  rejection of \<^verbatim>\<open>handleApiError\<close>.\<close>

lemma handleApiError_throws:
  assumes "json r = Inl e"
  shows "handleApiError r = Inl e"
  using assms by (simp add: handleApiError_def andThen_Inl)

lemma handleApiError_nullish:
  assumes "json r = Inr data" "nullish data"
  shows "handleApiError r = Inl TypeError"
  using assms by (simp add: handleApiError_def andThen_Inr andThen_Inl read_prop_nullish)

lemma field_errors_shaped_truthy: "field_errors_shaped v \<Longrightarrow> truthy v"
  by (cases v) simp_all

text \<open>
  Claim C2, as the code has it. For a response whose body is not parseable JSON,
  \<^verbatim>\<open>handleApiError\<close> throws at every status: the rejection of \<^verbatim>\<open>response.json()\<close> (a
  SyntaxError, or a TypeError when the body was already read) reaches the caller, and no
  classified error is returned.
\<close>

theorem handleApiError_unparseable_throws:
  assumes "json_body r = None"
  shows "handleApiError r = Inl (if bodyUsed r then TypeError else SyntaxError)"
proof -
  have "json r = Inl (if bodyUsed r then TypeError else SyntaxError)"
    using assms by (simp add: json_def)
  then show ?thesis by (rule handleApiError_throws)
qed

text \<open>A 502 from a proxy, whose body is a page of markup.\<close>

theorem handleApiError_unparseable_throws_witness:
  "json_body \<lparr>status = 502, json_body = None, bodyUsed = False\<rparr> = None
   \<and> handleApiError \<lparr>status = 502, json_body = None, bodyUsed = False\<rparr> = Inl SyntaxError"
  using handleApiError_unparseable_throws [of "\<lparr>status = 502, json_body = None, bodyUsed = False\<rparr>"]
  by simp

text \<open>Claim C2 as stated (the classifier does not throw, it returns a Generic error with
  the fallback message) fails on a 500 whose body is not JSON: the call throws.\<close>

theorem handleApiError_unparseable_counterexample:
  "handleApiError \<lparr>status = 500, json_body = None, bodyUsed = False\<rparr> = Inl SyntaxError"
  by (simp add: handleApiError_def json_def andThen_def)

text \<open>
  Claim C5, as the code has it. For a response whose JSON body is not \<^verbatim>\<open>null\<close>: with
  status 429 the classifier returns a rate-limited error whose message is \<^verbatim>\<open>body.detail\<close>
  and whose \<open>retryAfterSeconds\<close> is \<^verbatim>\<open>body.retry_after\<close>, unmodified; with status 423 it
  returns a locked error whose message is \<^verbatim>\<open>body.detail\<close>, whatever else the body holds.
  The two statuses are tested in this order and the first match returns.
\<close>

theorem handleApiError_rate_limited_locked:
  assumes "json r = Inr data" "\<not> nullish data"
  shows "(status r = 429 \<longrightarrow>
           (\<exists>e. handleApiError r = Inr e \<and> isRateLimited e
                \<and> classified_kind e = RateLimited
                \<and> message e = field data ''detail''
                \<and> retryAfterSeconds e = field data ''retry_after''))
       \<and> (status r = 423 \<longrightarrow>
           (\<exists>e. handleApiError r = Inr e \<and> isLocked e
                \<and> classified_kind e = Locked
                \<and> message e = field data ''detail''))"
  by (simp add: handleApiError_object [OF assms] retryAfterSeconds_def)

theorem handleApiError_rate_limited_locked_witness:
  "\<exists>e. handleApiError (json_response 429 (Obj [(''detail'', Str ''Too many attempts.''),
                                              (''retry_after'', Num 30),
                                              (''retry_after_human'', Str ''30 seconds'')])) = Inr e
      \<and> isRateLimited e
      \<and> classified_kind e = RateLimited
      \<and> message e = Str ''Too many attempts.''
      \<and> retryAfterSeconds e = Num 30"
  using handleApiError_rate_limited_locked
          [of "json_response 429 (Obj [(''detail'', Str ''Too many attempts.''),
                                       (''retry_after'', Num 30),
                                       (''retry_after_human'', Str ''30 seconds'')])"
              "Obj [(''detail'', Str ''Too many attempts.''),
                    (''retry_after'', Num 30),
                    (''retry_after_human'', Str ''30 seconds'')]"]
  by (simp add: json_response_def json_def)

text \<open>Claim C5 as stated (every JSON body, any body shape) fails on a 423 whose body is
  the JSON text \<^verbatim>\<open>null\<close>: reading \<^verbatim>\<open>data.detail\<close> raises a TypeError.\<close>

theorem handleApiError_null_body_counterexample:
  "handleApiError (json_response 423 Null) = Inl TypeError"
  by (simp add: handleApiError_def json_response_def json_def andThen_def read_prop_def)

text \<open>
  Claim C6, as the code has it. For a response whose JSON body is not \<^verbatim>\<open>null\<close> and whose
  status is neither 429 nor 423, the classifier returns an error that is neither
  rate-limited nor locked: a validation error when \<^verbatim>\<open>body.errors\<close> is a non-empty map from
  field names to lists of messages, a generic one otherwise. Its message is
  \<^verbatim>\<open>body.detail\<close> when that is truthy, and the fallback string when \<^verbatim>\<open>body.detail\<close> is
  absent or otherwise falsy (\<^verbatim>\<open>null\<close>, \<^verbatim>\<open>false\<close>, \<^verbatim>\<open>0\<close>, the empty string); its
  \<^verbatim>\<open>errors\<close> are \<^verbatim>\<open>body.errors\<close> when truthy, the empty object otherwise.
\<close>

theorem handleApiError_other:
  assumes "json r = Inr data" "\<not> nullish data" "status r \<noteq> 429" "status r \<noteq> 423"
  shows "\<exists>e. handleApiError r = Inr e
           \<and> \<not> isRateLimited e \<and> \<not> isLocked e
           \<and> classified_kind e
               = (if field_errors_shaped (field data ''errors'') then Validation else Generic)
           \<and> message e
               = (if truthy (field data ''detail'') then field data ''detail''
                  else Str ''An unexpected error occurred.'')
           \<and> errors e
               = (if truthy (field data ''errors'') then field data ''errors'' else Obj [])"
  using assms(3,4) field_errors_shaped_truthy [of "field data ''errors''"]
  by (auto simp add: handleApiError_object [OF assms(1,2)] js_or_def fallback_message_def)

theorem handleApiError_other_witness:
  "\<exists>e. handleApiError (json_response 400
          (Obj [(''errors'', Obj [(''email'', Arr [Str ''Enter a valid email address.''])])])) = Inr e
      \<and> \<not> isRateLimited e \<and> \<not> isLocked e
      \<and> classified_kind e = Validation
      \<and> message e = Str ''An unexpected error occurred.''
      \<and> errors e = Obj [(''email'', Arr [Str ''Enter a valid email address.''])]"
  using handleApiError_other
          [of "json_response 400
                 (Obj [(''errors'', Obj [(''email'', Arr [Str ''Enter a valid email address.''])])])"
              "Obj [(''errors'', Obj [(''email'', Arr [Str ''Enter a valid email address.''])])]"]
  by (simp add: json_response_def json_def)

text \<open>Claim C6 as stated (the message is \<^verbatim>\<open>body.detail\<close> unless that is absent) fails on
  a 400 whose body is \<^verbatim>\<open>{"detail": ""}\<close>: the detail is present, the message is the
  fallback string.\<close>

theorem handleApiError_empty_detail_counterexample:
  "field (Obj [(''detail'', Str [])]) ''detail'' = Str []
   \<and> handleApiError (json_response 400 (Obj [(''detail'', Str [])]))
       = Inr (OtherError (Str ''An unexpected error occurred.'') (Obj []))"
  by (simp add: handleApiError_def json_response_def json_def andThen_def read_prop_def
        js_or_def fallback_message_def)

section \<open>The token refresher\<close>

lemma redirect_fields:
  "localStorage (redirect t w) = localStorage w"
  "location_href (redirect t w) = location_href w @ [t]"
  "sent (redirect t w) = sent w"
  by (simp_all add: redirect_def)

lemma log_fields:
  "localStorage (log m w) = localStorage w"
  "location_href (log m w) = location_href w"
  "sent (log m w) = sent w"
  by (simp_all add: log_def)

lemma show_toast_fields:
  "localStorage (show_toast t w) = localStorage w"
  "location_href (show_toast t w) = location_href w"
  "sent (show_toast t w) = sent w"
  by (simp_all add: show_toast_def)

lemma setItem_fields:
  "localStorage (setItem k v w) = (localStorage w)(k \<mapsto> ToString v)"
  "location_href (setItem k v w) = location_href w"
  "sent (setItem k v w) = sent w"
  by (simp_all add: setItem_def)

lemma removeItem_fields:
  "localStorage (removeItem k w) = (localStorage w)(k := None)"
  "location_href (removeItem k w) = location_href w"
  "sent (removeItem k w) = sent w"
  by (simp_all add: removeItem_def)

lemmas world_fields =
  redirect_fields log_fields show_toast_fields setItem_fields removeItem_fields

lemma fetch_eq:
  "fetch net url i w = (net (sent w) url i, w\<lparr>sent := sent w @ [(url, i)]\<rparr>)"
  by (simp add: fetch_def)

lemma getItem_sent_update: "getItem (w\<lparr>sent := s\<rparr>) k = getItem w k"
  by (simp add: getItem_def)

lemma refresh_catch_fields:
  "fst (refresh_catch w) = Null"
  "localStorage (snd (refresh_catch w)) = localStorage w"
  "location_href (snd (refresh_catch w)) = location_href w @ [''/login'']"
  "sent (snd (refresh_catch w)) = sent w"
  by (simp_all add: refresh_catch_def world_fields)

lemma refreshToken_absent:
  assumes "\<not> truthy (getItem w ''refresh_token'')"
  shows "refreshToken net w =
           (Null, redirect ''/login'' (log ''No refresh token found. Redirecting to login.'' w))"
  using assms by (simp add: refreshToken_def Let_def)

lemma refreshToken_rejected:
  assumes "truthy (getItem w ''refresh_token'')"
    and "net (sent w) refresh_url (refresh_init (getItem w ''refresh_token'')) = Inl e"
  shows "refreshToken net w =
           refresh_catch (w\<lparr>sent := sent w @ [(refresh_url, refresh_init (getItem w ''refresh_token''))]\<rparr>)"
  using assms by (simp add: refreshToken_def Let_def fetch_eq)

lemma refreshToken_not_ok:
  assumes "truthy (getItem w ''refresh_token'')"
    and "net (sent w) refresh_url (refresh_init (getItem w ''refresh_token'')) = Inr r"
    and "\<not> ok r"
  shows "fst (refreshToken net w) = Null"
    and "localStorage (snd (refreshToken net w)) = localStorage w"
    and "location_href (snd (refreshToken net w)) = location_href w @ [''/login'']"
    and "sent (snd (refreshToken net w))
           = sent w @ [(refresh_url, refresh_init (getItem w ''refresh_token''))]"
  using assms
  by (simp_all add: refreshToken_def Let_def fetch_eq refresh_catch_fields world_fields
        split: sum.splits)

text \<open>The success path: a 2xx answer whose body is not \<^verbatim>\<open>null\<close> replaces both stored
  tokens and returns \<^verbatim>\<open>data.access_token\<close>.\<close>

lemma refreshToken_ok:
  assumes "truthy (getItem w ''refresh_token'')"
    and "net (sent w) refresh_url (refresh_init (getItem w ''refresh_token'')) = Inr r"
    and "ok r" and "json r = Inr data" and "\<not> nullish data"
  shows "refreshToken net w =
    (field data ''access_token'',
     setItem ''refresh_token'' (field data ''refresh_token'')
       (setItem ''access_token'' (field data ''access_token'')
         (w\<lparr>sent := sent w @ [(refresh_url, refresh_init (getItem w ''refresh_token''))]\<rparr>)))"
  using assms by (simp add: refreshToken_def Let_def fetch_eq read_prop_ok)

text \<open>One invocation calls the refresh endpoint at most once, and exactly once when it
  returns a truthy token.\<close>

lemma refreshToken_sent:
  "sent (snd (refreshToken net w)) = sent w
   \<or> sent (snd (refreshToken net w))
        = sent w @ [(refresh_url, refresh_init (getItem w ''refresh_token''))]"
  by (simp add: refreshToken_def Let_def fetch_eq refresh_catch_fields world_fields
        split: sum.splits)

lemma refreshToken_truthy_sent:
  assumes "truthy (fst (refreshToken net w))"
  shows "sent (snd (refreshToken net w))
           = sent w @ [(refresh_url, refresh_init (getItem w ''refresh_token''))]"
  using assms
  by (simp add: refreshToken_def Let_def fetch_eq refresh_catch_fields world_fields
        split: sum.splits if_splits)

lemma signed_in_tokens:
  "getItem (signed_in\<lparr>sent := s\<rparr>) ''access_token'' = Str ''old-access''"
  "getItem (signed_in\<lparr>sent := s\<rparr>) ''refresh_token'' = Str ''old-refresh''"
  "getItem signed_in ''access_token'' = Str ''old-access''"
  "getItem signed_in ''refresh_token'' = Str ''old-refresh''"
  "sent signed_in = []"
  by (simp_all add: getItem_def signed_in_def)

text \<open>
  Claim C7. When the Credential Store holds no refresh token, the refresher returns
  \<^verbatim>\<open>null\<close> and assigns the login page to the location, once, without any call of
  \<^verbatim>\<open>fetch\<close>; the store is as it was.
\<close>

theorem refreshToken_without_token:
  assumes "localStorage w ''refresh_token'' = None"
  shows "fst (refreshToken net w) = Null
       \<and> sent (snd (refreshToken net w)) = sent w
       \<and> location_href (snd (refreshToken net w)) = location_href w @ [''/login'']
       \<and> localStorage (snd (refreshToken net w)) = localStorage w"
proof -
  from assms have "\<not> truthy (getItem w ''refresh_token'')"
    by (simp add: getItem_def)
  then show ?thesis
    by (simp add: refreshToken_absent world_fields)
qed

theorem refreshToken_without_token_witness:
  "localStorage signed_out ''refresh_token'' = None
   \<and> fst (refreshToken offline signed_out) = Null
   \<and> sent (snd (refreshToken offline signed_out)) = []
   \<and> location_href (snd (refreshToken offline signed_out)) = [''/login'']"
  using refreshToken_without_token [of signed_out offline]
  by (simp add: signed_out_def)

text \<open>
  Claim C1, as the code has it. When a refresh token is stored and the call to the refresh
  endpoint is rejected or answered with a status outside 200..299, the refresher returns
  \<^verbatim>\<open>null\<close>, assigns the login page to the location exactly once, has called the endpoint
  exactly once, and leaves the Credential Store as it was: neither token is removed.
\<close>

theorem refreshToken_failure_keeps_store:
  assumes "truthy (getItem w ''refresh_token'')"
    and "call_failed (net (sent w) refresh_url (refresh_init (getItem w ''refresh_token'')))"
  shows "fst (refreshToken net w) = Null
       \<and> localStorage (snd (refreshToken net w)) = localStorage w
       \<and> location_href (snd (refreshToken net w)) = location_href w @ [''/login'']
       \<and> sent (snd (refreshToken net w))
            = sent w @ [(refresh_url, refresh_init (getItem w ''refresh_token''))]"
proof (cases "net (sent w) refresh_url (refresh_init (getItem w ''refresh_token''))")
  case (Inl e)
  with assms(1) have "refreshToken net w =
      refresh_catch (w\<lparr>sent := sent w @ [(refresh_url, refresh_init (getItem w ''refresh_token''))]\<rparr>)"
    by (rule refreshToken_rejected)
  then show ?thesis
    by (simp add: refresh_catch_fields)
next
  case (Inr r)
  with assms(2) have "\<not> ok r" by simp
  with assms(1) Inr show ?thesis
    by (simp add: refreshToken_not_ok)
qed

theorem refreshToken_failure_keeps_store_witness:
  "truthy (getItem signed_in ''refresh_token'')
   \<and> call_failed (expired_backend (sent signed_in) refresh_url
                    (refresh_init (getItem signed_in ''refresh_token'')))
   \<and> fst (refreshToken expired_backend signed_in) = Null
   \<and> localStorage (snd (refreshToken expired_backend signed_in)) = localStorage signed_in
   \<and> location_href (snd (refreshToken expired_backend signed_in)) = [''/login'']
   \<and> sent (snd (refreshToken expired_backend signed_in))
        = [(refresh_url, refresh_init (Str ''old-refresh''))]"
proof -
  have present: "truthy (getItem signed_in ''refresh_token'')"
    by (simp add: signed_in_def getItem_def)
  have failed: "call_failed (expired_backend (sent signed_in) refresh_url
                               (refresh_init (getItem signed_in ''refresh_token'')))"
    by (simp add: expired_backend_def json_response_def ok_def)
  from refreshToken_failure_keeps_store [of signed_in expired_backend] present failed
  show ?thesis
    by (simp add: signed_in_def getItem_def)
qed

text \<open>Claim C1 as stated (the store ends up empty) fails when the refresh endpoint
  answers 401 to a browser that holds a token pair: both tokens are still stored after
  the refresher returns.\<close>

theorem refreshToken_failure_counterexample:
  "call_failed (expired_backend (sent signed_in) refresh_url
                  (refresh_init (getItem signed_in ''refresh_token'')))
   \<and> localStorage (snd (refreshToken expired_backend signed_in)) ''access_token''
       = Some ''old-access''
   \<and> localStorage (snd (refreshToken expired_backend signed_in)) ''refresh_token''
       = Some ''old-refresh''"
proof -
  have present: "truthy (getItem signed_in ''refresh_token'')"
    by (simp add: signed_in_def getItem_def)
  have answer: "expired_backend (sent signed_in) refresh_url
                  (refresh_init (getItem signed_in ''refresh_token''))
      = Inr (json_response 401 (Obj [(''detail'', Str ''Token is invalid or expired.'')]))"
    by (simp add: expired_backend_def)
  have "\<not> ok (json_response 401 (Obj [(''detail'', Str ''Token is invalid or expired.'')]))"
    by (simp add: json_response_def ok_def)
  with present answer
  have "localStorage (snd (refreshToken expired_backend signed_in)) = localStorage signed_in"
    by (rule refreshToken_not_ok)
  then show ?thesis
    by (simp add: signed_in_def expired_backend_def json_response_def ok_def)
qed

section \<open>The gateway\<close>

lemma makeRequest_eq:
  "makeRequest net url options tok w =
     (net (sent w) url (request_init options tok),
      w\<lparr>sent := sent w @ [(url, request_init options tok)]\<rparr>)"
  by (simp add: makeRequest_def fetch_eq)

text \<open>The headers of a request the Gateway builds: the caller's header where the caller
  supplied one under that key, the Gateway's own otherwise.\<close>

lemma header_of_request_init:
  "header_of (request_init options tok) k =
     (case caller_header options k of
        Some v \<Rightarrow> Some v
      | None \<Rightarrow>
         [''Authorization'' \<mapsto> Str (''Bearer '' @ ToString tok),
          ''Content-Type'' \<mapsto>
             (if isFormData (body options) then Undefined else Str ''application/json'')] k)"
proof (cases "headers options")
  case None
  then show ?thesis
    by (simp add: header_of_def caller_header_def request_init_def)
next
  case (Some h)
  then show ?thesis
    by (cases "h k") (simp_all add: header_of_def caller_header_def request_init_def map_add_def)
qed

text \<open>Every call sends the original request first and then nothing, or the refresher's
  request, or the refresher's request and one retry: the Gateway does not loop.\<close>

lemma apiRequest_sent:
  "\<exists>rs. sent (snd (apiRequest net url options w))
           = sent w @ (url, request_init options (getItem w ''access_token'')) # rs
       \<and> (rs = []
          \<or> rs = [(refresh_url, refresh_init (getItem w ''refresh_token''))]
          \<or> (\<exists>t. rs = [(refresh_url, refresh_init (getItem w ''refresh_token'')),
                        (url, request_init options t)]))"
proof (cases "net (sent w) url (request_init options (getItem w ''access_token''))")
  case (Inl e)
  then show ?thesis
    by (simp add: apiRequest_def Let_def makeRequest_eq)
next
  case (Inr r0)
  let ?w1 = "w\<lparr>sent := sent w @ [(url, request_init options (getItem w ''access_token''))]\<rparr>"
  show ?thesis
  proof (cases "status r0 = 401")
    case False
    with Inr show ?thesis
      by (simp add: apiRequest_def Let_def makeRequest_eq)
  next
    case True
    obtain tok w2 where refreshed: "refreshToken net ?w1 = (tok, w2)"
      by (cases "refreshToken net ?w1")
    have call: "apiRequest net url options w =
        (if truthy tok then makeRequest net url options tok w2 else (Inr auth_failed_response, w2))"
      using Inr True refreshed by (simp add: apiRequest_def Let_def makeRequest_eq)
    show ?thesis
    proof (cases "truthy tok")
      case True
      with refreshToken_truthy_sent [of net ?w1] refreshed
      have "sent w2 = sent w @ [(url, request_init options (getItem w ''access_token'')),
                                (refresh_url, refresh_init (getItem w ''refresh_token''))]"
        by (simp add: getItem_sent_update)
      with True show ?thesis
        by (auto simp add: call makeRequest_eq)
    next
      case False
      with refreshToken_sent [of net ?w1] refreshed show ?thesis
        by (auto simp add: call getItem_sent_update)
    qed
  qed
qed

text \<open>
  Claim C10. A header the caller supplies in \<^verbatim>\<open>options.headers\<close> under a key \<open>k\<close> is the
  header under \<open>k\<close> of every request the Gateway builds from these options, whatever the
  token: for \<open>k\<close> = \<^verbatim>\<open>Authorization\<close> it replaces the bearer token read from the Credential
  Store, for \<open>k\<close> = \<^verbatim>\<open>Content-Type\<close> it replaces the Gateway's choice. The request so built
  from the stored access token is the first one a call of the Gateway sends.
\<close>

theorem caller_headers_override:
  assumes "caller_header options k = Some v"
  shows "header_of (request_init options tok) k = Some v
       \<and> (\<exists>rs. sent (snd (apiRequest net url options w))
                  = sent w @ (url, request_init options (getItem w ''access_token'')) # rs)"
proof -
  from assms have "header_of (request_init options tok) k = Some v"
    by (simp add: header_of_request_init)
  moreover from apiRequest_sent [of net url options w]
  have "\<exists>rs. sent (snd (apiRequest net url options w))
                = sent w @ (url, request_init options (getItem w ''access_token'')) # rs"
    by blast
  ultimately show ?thesis by blast
qed

theorem caller_headers_override_witness:
  "caller_header basic_auth_options ''Authorization'' = Some (Str ''Basic dXNlcjpwdw=='')
   \<and> header_of (request_init basic_auth_options (Str ''old-access'')) ''Authorization''
       = Some (Str ''Basic dXNlcjpwdw=='')"
proof -
  have own: "caller_header basic_auth_options ''Authorization'' = Some (Str ''Basic dXNlcjpwdw=='')"
    by (simp add: caller_header_def basic_auth_options_def)
  from caller_headers_override [OF own] own show ?thesis
    by blast
qed

text \<open>
  Claim C4. When the original request is answered 401 and the refresher returns
  \<^verbatim>\<open>null\<close>, the Gateway returns the response it makes up itself, with status 401 and the
  body \<^verbatim>\<open>{"detail": "Authentication failed, please log in."}\<close>, in the state the refresher
  left; after the original request nothing was sent but, at most, the refresher's own
  request, so there is no retry.
\<close>

theorem apiRequest_refresh_failed:
  assumes "makeRequest net url options (getItem w ''access_token'') w = (Inr r0, w1)"
    and "status r0 = 401"
    and "refreshToken net w1 = (Null, w2)"
  shows "apiRequest net url options w = (Inr auth_failed_response, w2)
       \<and> status auth_failed_response = 401
       \<and> json auth_failed_response
           = Inr (Obj [(''detail'', Str ''Authentication failed, please log in.'')])
       \<and> (sent w2 = sent w @ [(url, request_init options (getItem w ''access_token''))]
          \<or> sent w2 = sent w @ [(url, request_init options (getItem w ''access_token'')),
                                  (refresh_url, refresh_init (getItem w ''refresh_token''))])"
proof -
  have call: "apiRequest net url options w = (Inr auth_failed_response, w2)"
    using assms by (simp add: apiRequest_def Let_def)
  have w1: "w1 = w\<lparr>sent := sent w @ [(url, request_init options (getItem w ''access_token''))]\<rparr>"
    using assms(1) by (simp add: makeRequest_eq)
  have "sent w2 = sent w1
        \<or> sent w2 = sent w1 @ [(refresh_url, refresh_init (getItem w1 ''refresh_token''))]"
    using refreshToken_sent [of net w1] assms(3) by simp
  then have log: "sent w2 = sent w @ [(url, request_init options (getItem w ''access_token''))]
          \<or> sent w2 = sent w @ [(url, request_init options (getItem w ''access_token'')),
                                  (refresh_url, refresh_init (getItem w ''refresh_token''))]"
    by (simp add: w1 getItem_sent_update)
  show ?thesis
    using call log by (simp add: auth_failed_response_def json_def)
qed

theorem apiRequest_refresh_failed_witness:
  "fst (makeRequest expired_backend profile_url no_options (getItem signed_in ''access_token'') signed_in)
     = Inr (json_response 401 (Obj [(''detail'', Str ''Token is invalid or expired.'')]))
   \<and> fst (refreshToken expired_backend
            (snd (makeRequest expired_backend profile_url no_options
                    (getItem signed_in ''access_token'') signed_in)))
       = Null
   \<and> fst (apiRequest expired_backend profile_url no_options signed_in) = Inr auth_failed_response
   \<and> sent (snd (apiRequest expired_backend profile_url no_options signed_in))
       = [(profile_url, request_init no_options (Str ''old-access'')),
          (refresh_url, refresh_init (Str ''old-refresh''))]"
proof -
  let ?r0 = "json_response 401 (Obj [(''detail'', Str ''Token is invalid or expired.'')])"
  let ?w1 = "signed_in\<lparr>sent := [(profile_url, request_init no_options (Str ''old-access''))]\<rparr>"
  have first: "makeRequest expired_backend profile_url no_options (getItem signed_in ''access_token'') signed_in
      = (Inr ?r0, ?w1)"
    by (simp add: makeRequest_eq expired_backend_def signed_in_tokens)
  have unauthorized: "status ?r0 = 401"
    by (simp add: json_response_def)
  have present: "truthy (getItem ?w1 ''refresh_token'')"
    by (simp add: signed_in_tokens)
  have answer: "expired_backend (sent ?w1) refresh_url (refresh_init (getItem ?w1 ''refresh_token'')) = Inr ?r0"
    by (simp add: expired_backend_def)
  have denied: "\<not> ok ?r0"
    by (simp add: ok_def json_response_def)
  have tok: "fst (refreshToken expired_backend ?w1) = Null"
    using present answer denied by (rule refreshToken_not_ok)
  have log: "sent (snd (refreshToken expired_backend ?w1))
      = sent ?w1 @ [(refresh_url, refresh_init (getItem ?w1 ''refresh_token''))]"
    using present answer denied by (rule refreshToken_not_ok)
  have refreshed: "refreshToken expired_backend ?w1 = (Null, snd (refreshToken expired_backend ?w1))"
    using tok by (metis prod.collapse)
  note result = apiRequest_refresh_failed [OF first unauthorized refreshed]
  have "apiRequest expired_backend profile_url no_options signed_in
          = (Inr auth_failed_response, snd (refreshToken expired_backend ?w1))"
    using result by blast
  then have "fst (apiRequest expired_backend profile_url no_options signed_in) = Inr auth_failed_response"
    and "sent (snd (apiRequest expired_backend profile_url no_options signed_in))
       = [(profile_url, request_init no_options (Str ''old-access'')),
          (refresh_url, refresh_init (Str ''old-refresh''))]"
    by (simp_all add: log signed_in_tokens)
  moreover have "fst (makeRequest expired_backend profile_url no_options
                        (getItem signed_in ''access_token'') signed_in) = Inr ?r0"
    by (simp add: first)
  moreover have "fst (refreshToken expired_backend
            (snd (makeRequest expired_backend profile_url no_options
                    (getItem signed_in ''access_token'') signed_in))) = Null"
    by (simp add: first tok)
  ultimately show ?thesis
    by blast
qed

lemma rotating_refresh:
  "fst (refreshToken rotating_backend (signed_in\<lparr>sent := s\<rparr>)) = Str ''new-access''"
proof -
  let ?data = "Obj [(''access_token'', Str ''new-access''), (''refresh_token'', Str ''new-refresh'')]"
  have "truthy (getItem (signed_in\<lparr>sent := s\<rparr>) ''refresh_token'')"
    by (simp add: signed_in_tokens)
  moreover have "rotating_backend (sent (signed_in\<lparr>sent := s\<rparr>)) refresh_url
      (refresh_init (getItem (signed_in\<lparr>sent := s\<rparr>) ''refresh_token''))
        = Inr (json_response 200 ?data)"
    by (simp add: rotating_backend_def)
  moreover have "ok (json_response 200 ?data)"
    by (simp add: ok_def json_response_def)
  moreover have "json (json_response 200 ?data) = Inr ?data"
    by (simp add: json_def json_response_def)
  moreover have "\<not> nullish ?data" by simp
  ultimately show ?thesis
    by (simp add: refreshToken_ok)
qed

lemma refresh_url_not_profile: "profile_url \<noteq> refresh_url"
  by (simp add: profile_url_def refresh_url_def)

text \<open>
  Claim C3, as the code has it. When the original request is answered 401 and the
  refresher returns a token (a truthy value), the Gateway sends the request once more,
  built from the same options with the new token, and returns the outcome of that retry
  as it is, whatever its status. The call has then sent three requests: the original one,
  the refresher's, the retry; nothing is sent twice and nothing after the retry. The
  retry bears the new token as \<^verbatim>\<open>Authorization: Bearer\<close> unless the caller supplied an
  \<^verbatim>\<open>Authorization\<close> header of its own, which then replaces it as in claim C10.
\<close>

theorem apiRequest_retry_after_refresh:
  assumes "makeRequest net url options (getItem w ''access_token'') w = (Inr r0, w1)"
    and "status r0 = 401"
    and "refreshToken net w1 = (newToken, w2)"
    and "truthy newToken"
  shows "apiRequest net url options w = makeRequest net url options newToken w2
       \<and> fst (apiRequest net url options w) = net (sent w2) url (request_init options newToken)
       \<and> sent (snd (apiRequest net url options w)) =
            sent w @ [(url, request_init options (getItem w ''access_token'')),
                      (refresh_url, refresh_init (getItem w ''refresh_token'')),
                      (url, request_init options newToken)]
       \<and> (caller_header options ''Authorization'' = None \<longrightarrow>
            header_of (request_init options newToken) ''Authorization''
              = Some (Str (''Bearer '' @ ToString newToken)))"
proof -
  have call: "apiRequest net url options w = makeRequest net url options newToken w2"
    using assms by (simp add: apiRequest_def Let_def)
  have w1: "w1 = w\<lparr>sent := sent w @ [(url, request_init options (getItem w ''access_token''))]\<rparr>"
    using assms(1) by (simp add: makeRequest_eq)
  have "sent w2 = sent w1 @ [(refresh_url, refresh_init (getItem w1 ''refresh_token''))]"
    using refreshToken_truthy_sent [of net w1] assms(3,4) by simp
  then have log: "sent w2 = sent w @ [(url, request_init options (getItem w ''access_token'')),
                                     (refresh_url, refresh_init (getItem w ''refresh_token''))]"
    by (simp add: w1 getItem_sent_update)
  have hdr: "caller_header options ''Authorization'' = None \<longrightarrow>
            header_of (request_init options newToken) ''Authorization''
              = Some (Str (''Bearer '' @ ToString newToken))"
    by (simp add: header_of_request_init)
  show ?thesis
    using log hdr by (simp add: call makeRequest_eq)
qed

theorem apiRequest_retry_after_refresh_witness:
  "fst (makeRequest rotating_backend profile_url no_options (getItem signed_in ''access_token'') signed_in)
     = Inr (json_response 401 (Obj [(''detail'', Str ''Token is invalid or expired.'')]))
   \<and> truthy (Str ''new-access'')
   \<and> fst (apiRequest rotating_backend profile_url no_options signed_in)
       = Inr (json_response 200 (Obj [(''id'', Num 7)]))
   \<and> sent (snd (apiRequest rotating_backend profile_url no_options signed_in))
       = [(profile_url, request_init no_options (Str ''old-access'')),
          (refresh_url, refresh_init (Str ''old-refresh'')),
          (profile_url, request_init no_options (Str ''new-access''))]
   \<and> header_of (request_init no_options (Str ''new-access'')) ''Authorization''
       = Some (Str ''Bearer new-access'')"
proof -
  let ?r0 = "json_response 401 (Obj [(''detail'', Str ''Token is invalid or expired.'')])"
  let ?w1 = "signed_in\<lparr>sent := sent signed_in @
               [(profile_url, request_init no_options (getItem signed_in ''access_token''))]\<rparr>"
  have old: "header_of (request_init no_options (Str ''old-access'')) ''Authorization''
               = Some (Str ''Bearer old-access'')"
    by (simp add: header_of_request_init caller_header_def no_options_def)
  have new: "header_of (request_init no_options (Str ''new-access'')) ''Authorization''
               = Some (Str ''Bearer new-access'')"
    by (simp add: header_of_request_init caller_header_def no_options_def)
  have first: "makeRequest rotating_backend profile_url no_options
                 (getItem signed_in ''access_token'') signed_in = (Inr ?r0, ?w1)"
    by (simp add: makeRequest_eq rotating_backend_def refresh_url_not_profile signed_in_tokens old)
  have unauthorized: "status ?r0 = 401"
    by (simp add: json_response_def)
  have refreshed: "refreshToken rotating_backend ?w1
                     = (Str ''new-access'', snd (refreshToken rotating_backend ?w1))"
    using rotating_refresh [of "sent signed_in @
               [(profile_url, request_init no_options (getItem signed_in ''access_token''))]"]
    by (metis prod.collapse)
  have accepted: "truthy (Str ''new-access'')" by simp
  have answer: "rotating_backend (sent (snd (refreshToken rotating_backend ?w1))) profile_url
      (request_init no_options (Str ''new-access'')) = Inr (json_response 200 (Obj [(''id'', Num 7)]))"
    by (simp add: rotating_backend_def refresh_url_not_profile new)
  note result = apiRequest_retry_after_refresh [OF first unauthorized refreshed accepted]
  have "fst (apiRequest rotating_backend profile_url no_options signed_in)
          = rotating_backend (sent (snd (refreshToken rotating_backend ?w1))) profile_url
              (request_init no_options (Str ''new-access''))"
    using result by blast
  then have "fst (apiRequest rotating_backend profile_url no_options signed_in)
          = Inr (json_response 200 (Obj [(''id'', Num 7)]))"
    by (simp only: answer)
  moreover have "sent (snd (apiRequest rotating_backend profile_url no_options signed_in))
          = sent signed_in @ [(profile_url, request_init no_options (getItem signed_in ''access_token'')),
             (refresh_url, refresh_init (getItem signed_in ''refresh_token'')),
             (profile_url, request_init no_options (Str ''new-access''))]"
    using result by blast
  then have "sent (snd (apiRequest rotating_backend profile_url no_options signed_in))
          = [(profile_url, request_init no_options (Str ''old-access'')),
             (refresh_url, refresh_init (Str ''old-refresh'')),
             (profile_url, request_init no_options (Str ''new-access''))]"
    by (simp only: signed_in_tokens append_Nil)
  moreover have "fst (makeRequest rotating_backend profile_url no_options
                        (getItem signed_in ''access_token'') signed_in) = Inr ?r0"
    by (simp add: first)
  ultimately show ?thesis
    using accepted new by blast
qed

text \<open>Claim C3 as stated (the retry bears the new access token, for every call) fails for
  a caller that supplies its own \<^verbatim>\<open>Authorization\<close> header: the original request is
  answered 401, the refresher returns the new token, and the one retry carries the caller's
  header again, not the new token.\<close>

theorem apiRequest_retry_counterexample:
  "fst (makeRequest rotating_backend profile_url basic_auth_options
          (getItem signed_in ''access_token'') signed_in)
     = Inr (json_response 401 (Obj [(''detail'', Str ''Token is invalid or expired.'')]))
   \<and> fst (refreshToken rotating_backend
            (snd (makeRequest rotating_backend profile_url basic_auth_options
                    (getItem signed_in ''access_token'') signed_in)))
       = Str ''new-access''
   \<and> sent (snd (apiRequest rotating_backend profile_url basic_auth_options signed_in))
       = [(profile_url, request_init basic_auth_options (Str ''old-access'')),
          (refresh_url, refresh_init (Str ''old-refresh'')),
          (profile_url, request_init basic_auth_options (Str ''new-access''))]
   \<and> header_of (request_init basic_auth_options (Str ''new-access'')) ''Authorization''
       = Some (Str ''Basic dXNlcjpwdw=='')"
proof -
  let ?r0 = "json_response 401 (Obj [(''detail'', Str ''Token is invalid or expired.'')])"
  let ?w1 = "signed_in\<lparr>sent := [(profile_url, request_init basic_auth_options (Str ''old-access''))]\<rparr>"
  have hdr: "header_of (request_init basic_auth_options t) ''Authorization''
               = Some (Str ''Basic dXNlcjpwdw=='')" for t
    by (simp add: header_of_request_init caller_header_def basic_auth_options_def)
  have first: "makeRequest rotating_backend profile_url basic_auth_options
                 (getItem signed_in ''access_token'') signed_in = (Inr ?r0, ?w1)"
    by (simp add: makeRequest_eq rotating_backend_def refresh_url_not_profile signed_in_tokens hdr)
  have tok: "fst (refreshToken rotating_backend ?w1) = Str ''new-access''"
    by (rule rotating_refresh)
  have log: "sent (snd (refreshToken rotating_backend ?w1))
      = sent ?w1 @ [(refresh_url, refresh_init (getItem ?w1 ''refresh_token''))]"
    by (rule refreshToken_truthy_sent) (simp add: tok)
  obtain w2 where refreshed: "refreshToken rotating_backend ?w1 = (Str ''new-access'', w2)"
    using tok by (cases "refreshToken rotating_backend ?w1") simp
  have "apiRequest rotating_backend profile_url basic_auth_options signed_in
      = makeRequest rotating_backend profile_url basic_auth_options (Str ''new-access'') w2"
    using first refreshed by (simp add: apiRequest_def Let_def json_response_def)
  with log refreshed
  have "sent (snd (apiRequest rotating_backend profile_url basic_auth_options signed_in))
       = [(profile_url, request_init basic_auth_options (Str ''old-access'')),
          (refresh_url, refresh_init (Str ''old-refresh'')),
          (profile_url, request_init basic_auth_options (Str ''new-access''))]"
    by (simp add: makeRequest_eq signed_in_tokens)
  moreover have "fst (makeRequest rotating_backend profile_url basic_auth_options
                        (getItem signed_in ''access_token'') signed_in) = Inr ?r0"
    by (simp add: first)
  moreover have "fst (refreshToken rotating_backend
            (snd (makeRequest rotating_backend profile_url basic_auth_options
                    (getItem signed_in ''access_token'') signed_in))) = Str ''new-access''"
    by (simp add: first tok)
  ultimately show ?thesis
    using hdr by blast
qed

section \<open>Login and logout\<close>

text \<open>
  Claim C8. When the login endpoint answers 400 with a body whose \<^verbatim>\<open>requires_2fa\<close> is
  \<^verbatim>\<open>true\<close>, \<^verbatim>\<open>login\<close> returns the result flagged \<^verbatim>\<open>requires2FA\<close> and the Credential
  Store is as it was before the call: no token is stored.
\<close>

theorem login_requires_2fa:
  assumes "net (sent w) login_url (login_init c) = Inr r"
    and "status r = 400"
    and "json r = Inr data"
    and "field data ''requires_2fa'' = Bool True"
  shows "fst (login net c w) = Inr Requires2FA
       \<and> localStorage (snd (login net c w)) = localStorage w"
proof -
  have "\<not> nullish data"
    using assms(4) by (cases data) simp_all
  then have "read_prop data ''requires_2fa'' = Inr (Bool True)"
    using assms(4) by (simp add: read_prop_def)
  moreover have "\<not> ok r"
    using assms(2) by (simp add: ok_def)
  ultimately show ?thesis
    using assms(1,2,3) by (simp add: login_def fetch_eq)
qed

theorem login_requires_2fa_witness:
  "status (json_response 400 (Obj [(''detail'', Str ''Two-factor token required.''),
                                   (''requires_2fa'', Bool True)])) = 400
   \<and> fst (login two_factor_backend sample_credentials signed_out) = Inr Requires2FA
   \<and> localStorage (snd (login two_factor_backend sample_credentials signed_out)) = Map.empty"
proof -
  let ?data = "Obj [(''detail'', Str ''Two-factor token required.''), (''requires_2fa'', Bool True)]"
  have answer: "two_factor_backend (sent signed_out) login_url (login_init sample_credentials)
      = Inr (json_response 400 ?data)"
    by (simp add: two_factor_backend_def)
  have code: "status (json_response 400 ?data) = 400"
    by (simp add: json_response_def)
  have parsed: "json (json_response 400 ?data) = Inr ?data"
    by (simp add: json_def json_response_def)
  have flag: "field ?data ''requires_2fa'' = Bool True"
    by simp
  from login_requires_2fa [where net = two_factor_backend and w = signed_out
                and c = sample_credentials and r = "json_response 400 ?data" and data = ?data]
       answer code parsed flag
  have "fst (login two_factor_backend sample_credentials signed_out) = Inr Requires2FA"
    and "localStorage (snd (login two_factor_backend sample_credentials signed_out)) = Map.empty"
    by (simp_all add: signed_out_def)
  with code show ?thesis
    by blast
qed

text \<open>A 400 that does not ask for the second factor: the body was read by the test for
  \<^verbatim>\<open>requires_2fa\<close>, so the \<^verbatim>\<open>response.json()\<close> of \<^verbatim>\<open>handleApiError\<close> rejects and
  \<^verbatim>\<open>login\<close> throws; the store is untouched here too.\<close>

lemma login_bad_request_throws:
  assumes "net (sent w) login_url (login_init c) = Inr r"
    and "status r = 400"
    and "json r = Inr data"
    and "\<not> nullish data"
    and "\<not> truthy (field data ''requires_2fa'')"
  shows "fst (login net c w) = Inl TypeError
       \<and> localStorage (snd (login net c w)) = localStorage w"
proof -
  have "\<not> ok r"
    using assms(2) by (simp add: ok_def)
  moreover have "handleApiError (consumed r) = Inl TypeError"
    by (rule handleApiError_throws) (simp add: json_def consumed_def)
  ultimately show ?thesis
    using assms by (simp add: login_def fetch_eq read_prop_ok)
qed

text \<open>
  Claim C9. After \<^verbatim>\<open>logout\<close> neither \<^verbatim>\<open>access_token\<close> nor \<^verbatim>\<open>refresh_token\<close> is stored,
  whatever the network did with the server-side call: answered it with any status,
  rejected it, or had the Gateway refresh the pair in between. (A call that never settles
  is outside the model: \<^verbatim>\<open>logout\<close> would not complete either.)
\<close>

theorem logout_clears_tokens:
  "localStorage (logout net w) ''access_token'' = None
   \<and> localStorage (logout net w) ''refresh_token'' = None"
  by (simp add: logout_def Let_def world_fields)

theorem logout_clears_tokens_witness:
  "localStorage (logout offline signed_in) ''access_token'' = None
   \<and> localStorage (logout offline signed_in) ''refresh_token'' = None"
  using logout_clears_tokens [of offline signed_in] by simp

end
